theory Spec2Isabelle
  imports Complex_Main "HOL-Library.Multiset" "HOL-Library.Sublist"
begin

section \<open>Cloudflare IP performance tester (scripts/cfRegTest.py)\<close>

text \<open>
  The script probes a list of addresses (latency, serving location, download and upload
  throughput) and keeps the ones that pass every threshold. Everything the script reads
  from outside (the candidate file, the shuffle, the probe responses, the clock, the
  fault of the output file) is a field of the record \<open>world\<close>, fixed per address; the
  functions below are the script's functions over that record. Exceptions are values:
  \<open>Inl e\<close> is the exception \<open>e\<close> raised to the caller. Measured times and speeds are
  Python floats that come out of a clock or a division by a non-zero time; they are
  modelled as real numbers with exact arithmetic. The two speed thresholds are read from the configuration
  by \<open>getfloat\<close>, which accepts \<open>nan\<close> and \<open>inf\<close>, so they are values of \<open>pyfloat\<close>.
  A \<open>char\<close> stands for a code point below 256.
\<close>

subsection \<open>Exceptions and outcomes of external calls\<close>

text \<open>
  The exception classes the script raises or catches by name. \<open>IOError\<close> is Python's alias
  of \<open>OSError\<close> and stands for every other operating-system error too; \<open>OtherError\<close> is
  any further subclass of \<open>Exception\<close>. Each carries its message (\<open>str(e)\<close>).
\<close>

datatype error =
    FileNotFoundError string
  | ValueError string
  | RuntimeError string
  | IOError string
  | AttributeError string
  | IndexError string
  | ZeroDivisionError string
  | RequestException string
  | OtherError string

fun str_of :: "error \<Rightarrow> string" where
  "str_of (FileNotFoundError m) = m"
| "str_of (ValueError m) = m"
| "str_of (RuntimeError m) = m"
| "str_of (IOError m) = m"
| "str_of (AttributeError m) = m"
| "str_of (IndexError m) = m"
| "str_of (ZeroDivisionError m) = m"
| "str_of (RequestException m) = m"
| "str_of (OtherError m) = m"

fun is_FileNotFoundError :: "error \<Rightarrow> bool" where
  "is_FileNotFoundError (FileNotFoundError m) = True"
| "is_FileNotFoundError e = False"

fun is_RequestException :: "error \<Rightarrow> bool" where
  "is_RequestException (RequestException m) = True"
| "is_RequestException e = False"

text \<open>An external call either raises or returns.\<close>

datatype 'a outcome = Raises error | Returns 'a

text \<open>What \<open>ping3.ping\<close> returns: \<open>None\<close> on a timeout, \<open>False\<close> on an error it
  reports without raising, or the round-trip time in seconds.\<close>

datatype ping_response = NoneResponse | FalseResponse | Seconds real

text \<open>
  A Python float: not a number, an infinity, or a finite value. \<open>float_lt\<close> is \<open><\<close> and
  \<open>float_ge\<close> is \<open>>=\<close>; both are false as soon as one side is not a number.
\<close>

datatype pyfloat = NaN | NegInf | Finite real | PosInf

fun float_lt :: "pyfloat \<Rightarrow> pyfloat \<Rightarrow> bool" where
  "float_lt NaN y = False"
| "float_lt x NaN = False"
| "float_lt PosInf y = False"
| "float_lt x NegInf = False"
| "float_lt NegInf y = True"
| "float_lt x PosInf = True"
| "float_lt (Finite a) (Finite b) = (a < b)"

fun float_ge :: "pyfloat \<Rightarrow> pyfloat \<Rightarrow> bool" where
  "float_ge NaN y = False"
| "float_ge x NaN = False"
| "float_ge PosInf y = True"
| "float_ge x NegInf = True"
| "float_ge NegInf y = False"
| "float_ge x PosInf = False"
| "float_ge (Finite a) (Finite b) = (b \<le> a)"

text \<open>A row of \<open>csv.DictReader\<close>: a dictionary from column names to fields, where the
  field of a row that is too short is \<open>None\<close>.\<close>

type_synonym colo_row = "string \<rightharpoonup> string option"

text \<open>The files on the device, as the text that each path holds.\<close>

type_synonym filesystem = "string \<rightharpoonup> string"

subsection \<open>The data class and the tester's settings\<close>

record IPPerformanceMetrics =
  ip :: string
  region :: string
  ping :: int
  upload_speed :: real
  download_speed :: real

text \<open>The attributes that \<open>CloudflareIPTester.__init__\<close> sets from the configuration.\<close>

record CloudflareIPTester =
  max_ips :: int
  max_ping :: int
  test_size :: int
  min_download_speed :: pyfloat
  min_upload_speed :: pyfloat
  regions :: "string list"
  output_file :: string
  ip_file :: string

text \<open>
  The outside of one run. \<open>PING_AVAILABLE\<close> is the module's flag; \<open>ip_address_parses\<close> is
  whether \<open>ipaddress.ip_address\<close> accepts a string; \<open>file_lines\<close> is the result of opening
  and iterating the candidate file; \<open>random_shuffle\<close> is the order \<open>random.shuffle\<close>
  leaves; \<open>ping3_ping\<close> takes the address and the timeout in seconds; \<open>clock_elapsed\<close> is
  \<open>time.time() - start_time\<close> in \<open>get_ping\<close> when it returns; \<open>colo_csv\<close> is the parsed
  location table; \<open>trace_lines\<close> is \<open>response.text.splitlines()\<close> of the trace request;
  \<open>download_time\<close> and \<open>upload_time\<close> are the elapsed seconds of the transfers (given the
  address and the size); \<open>open_fault\<close> is the error of opening the output file, if any;
  \<open>csv_format\<close> is the text that \<open>csv.writer\<close> writes for a row; \<open>buffer_size\<close> is the
  amount of pending text above which the file object flushes; \<open>device_capacity\<close> is the
  number of characters that the device accepts for the file (\<open>None\<close> when it has no
  limit) and \<open>device_error\<close> the error that a flush raises when the device is full.
\<close>

record world =
  PING_AVAILABLE :: bool
  ip_address_parses :: "string \<Rightarrow> bool"
  file_lines :: "string \<Rightarrow> string list outcome"
  random_shuffle :: "string list \<Rightarrow> string list"
  ping3_ping :: "string \<Rightarrow> real \<Rightarrow> ping_response outcome"
  clock_elapsed :: "string \<Rightarrow> real"
  colo_csv :: "colo_row list outcome"
  trace_lines :: "string \<Rightarrow> string list outcome"
  download_time :: "string \<Rightarrow> int \<Rightarrow> real outcome"
  upload_time :: "string \<Rightarrow> int \<Rightarrow> real outcome"
  open_fault :: "string \<Rightarrow> error option"
  csv_format :: "string list \<Rightarrow> string"
  buffer_size :: nat
  device_capacity :: "string \<Rightarrow> nat option"
  device_error :: "string \<Rightarrow> error"

subsection \<open>Python built-ins the script uses\<close>

text \<open>\<open>int(x)\<close> on a float truncates towards zero.\<close>

definition py_int :: "real \<Rightarrow> int" where
  "py_int x = (if 0 \<le> x then \<lfloor>x\<rfloor> else \<lceil>x\<rceil>)"

text \<open>\<open>round(x, 2)\<close>: to the nearest hundredth, a tie to the even one.\<close>

definition round_half_even :: "real \<Rightarrow> int" where
  "round_half_even x =
     (let f = \<lfloor>x\<rfloor>; d = x - of_int f
      in if d < 1 / 2 then f else if 1 / 2 < d then f + 1
         else if even f then f else f + 1)"

definition py_round2 :: "real \<Rightarrow> real" where
  "py_round2 x = of_int (round_half_even (x * 100)) / 100"

text \<open>
  \<open>s.strip()\<close> removes the white space of both ends. Below 256 the white space of
  Python is U+0009 to U+000D, U+001C to U+001F, U+0020, U+0085 and U+00A0.
\<close>

definition is_space :: "char \<Rightarrow> bool" where
  "is_space c = (c \<in> set [CHR 0x09, CHR 0x0A, CHR 0x0B, CHR 0x0C, CHR 0x0D,
                           CHR 0x1C, CHR 0x1D, CHR 0x1E, CHR 0x1F, CHR 0x20,
                           CHR 0x85, CHR 0xA0])"

definition strip :: "string \<Rightarrow> string" where
  "strip s = rev (dropWhile is_space (rev (dropWhile is_space s)))"

text \<open>\<open>s.replace(" ", "_")\<close>.\<close>

definition replace_space :: "string \<Rightarrow> string" where
  "replace_space s = map (\<lambda>c. if c = CHR 0x20 then CHR ''_'' else c) s"

text \<open>\<open>s.split(c)\<close> for a one-character separator.\<close>

fun split_on :: "char \<Rightarrow> string \<Rightarrow> string list" where
  "split_on c [] = [[]]"
| "split_on c (x # xs) =
     (if x = c then [] # split_on c xs
      else (case split_on c xs of [] \<Rightarrow> [[x]] | p # ps \<Rightarrow> (x # p) # ps))"

text \<open>\<open>s.startswith(p)\<close>.\<close>

definition startswith :: "string \<Rightarrow> string \<Rightarrow> bool" where
  "startswith s p = (take (length p) s = p)"

text \<open>\<open>xs[:n]\<close>: a negative \<open>n\<close> counts from the end.\<close>

definition slice_to :: "int \<Rightarrow> 'a list \<Rightarrow> 'a list" where
  "slice_to n xs = (if 0 \<le> n then take (nat n) xs else take (length xs - nat (- n)) xs)"

text \<open>\<open>str(i)\<close> on an integer, and the format \<open>.2f\<close> of a float.\<close>

function digits_of :: "nat \<Rightarrow> string" where
  "digits_of n =
     (if n < 10 then [''0123456789'' ! n]
      else digits_of (n div 10) @ [''0123456789'' ! (n mod 10)])"
  by pat_completeness auto
termination
  by (relation "measure id") auto

declare digits_of.simps [simp del]

definition str_int :: "int \<Rightarrow> string" where
  "str_int i = (if i < 0 then ''-'' @ digits_of (nat (- i)) else digits_of (nat i))"

definition format_2f :: "real \<Rightarrow> string" where
  "format_2f x =
     (let c = nat (round_half_even (\<bar>x\<bar> * 100))
      in (if x < 0 then ''-'' else []) @ digits_of (c div 100) @ ''.''
         @ [''0123456789'' ! (c mod 100 div 10), ''0123456789'' ! (c mod 10)])"

subsection \<open>to_csv_row\<close>

definition to_csv_row :: "IPPerformanceMetrics \<Rightarrow> string list" where
  "to_csv_row m =
     [ip m, region m, str_int (ping m), format_2f (upload_speed m),
      format_2f (download_speed m)]"

subsection \<open>read_ips and validate_ip\<close>

definition validate_ip :: "world \<Rightarrow> string \<Rightarrow> bool" where
  "validate_ip w s = ip_address_parses w s"

text \<open>The body of the \<open>try\<close> of \<open>read_ips\<close>, then its two handlers.\<close>

definition read_ips_try :: "world \<Rightarrow> string \<Rightarrow> error + string list" where
  "read_ips_try w file_path =
     (case file_lines w file_path of
        Raises e \<Rightarrow> Inl e
      | Returns ls \<Rightarrow>
          (let ips = map strip (filter (\<lambda>l. strip l \<noteq> [] \<and> validate_ip w (strip l)) ls)
           in if ips = [] then Inl (ValueError ''No valid IP addresses found in the file'')
              else Inr ips))"

definition read_ips :: "world \<Rightarrow> string \<Rightarrow> error + string list" where
  "read_ips w file_path =
     (case read_ips_try w file_path of
        Inr ips \<Rightarrow> Inr ips
      | Inl e \<Rightarrow>
          (if is_FileNotFoundError e
           then Inl (FileNotFoundError (''IP file not found: '' @ file_path))
           else Inl (FileNotFoundError (''Error reading IP file: '' @ str_of e))))"

subsection \<open>fetch_cloudflare_colo_data, get_colo_from_ip, get_region_from_colo\<close>

definition fetch_cloudflare_colo_data :: "world \<Rightarrow> error + colo_row list" where
  "fetch_cloudflare_colo_data w =
     (case colo_csv w of
        Returns rows \<Rightarrow> Inr rows
      | Raises e \<Rightarrow> (if is_RequestException e then Inr [] else Inl e))"

text \<open>The loop over the lines of the trace response.\<close>

fun colo_of_lines :: "string list \<Rightarrow> error + string option" where
  "colo_of_lines [] = Inr None"
| "colo_of_lines (l # ls) =
     (if startswith l ''colo=''
      then (case split_on CHR ''='' l of
              a # b # rest \<Rightarrow> Inr (Some b)
            | _ \<Rightarrow> Inl (IndexError ''list index out of range''))
      else colo_of_lines ls)"

definition get_colo_from_ip :: "world \<Rightarrow> string \<Rightarrow> error + string option" where
  "get_colo_from_ip w addr =
     (case trace_lines w addr of
        Returns ls \<Rightarrow> colo_of_lines ls
      | Raises e \<Rightarrow> (if is_RequestException e then Inr None else Inl e))"

text \<open>The error of calling \<open>replace\<close> on \<open>None\<close> (\<open>CHR 0x27\<close> is the single quote).\<close>

definition none_has_no_replace :: error where
  "none_has_no_replace =
     AttributeError ([CHR 0x27] @ ''NoneType'' @ [CHR 0x27] @ '' object has no attribute ''
                     @ [CHR 0x27] @ ''replace'' @ [CHR 0x27])"

fun get_region_from_colo :: "string \<Rightarrow> colo_row list \<Rightarrow> error + string" where
  "get_region_from_colo colo [] = Inr ''Unknown''"
| "get_region_from_colo colo (row # rows) =
     (if row ''colo'' = Some (Some colo)
      then (case row ''region'' of
              None \<Rightarrow> Inr (replace_space ''Unknown'')
            | Some None \<Rightarrow> Inl none_has_no_replace
            | Some (Some r) \<Rightarrow> Inr (replace_space r))
      else get_region_from_colo colo rows)"

subsection \<open>get_ping\<close>

definition ping_unavailable :: error where
  "ping_unavailable = RuntimeError ''Ping functionality unavailable. Install the ping3 library.''"

definition get_ping :: "CloudflareIPTester \<Rightarrow> world \<Rightarrow> string \<Rightarrow> error + int" where
  "get_ping self w addr =
     (if \<not> PING_AVAILABLE w then Inl ping_unavailable
      else (case ping3_ping w addr (real_of_int (max_ping self) / 1000) of
              Raises e \<Rightarrow> Inr (- 1)
            | Returns (Seconds t) \<Rightarrow>
                (if 0 < t then Inr (py_int (t * 1000))
                 else Inr (py_int (clock_elapsed w addr * 1000)))
            | Returns r \<Rightarrow> Inr (py_int (clock_elapsed w addr * 1000))))"

subsection \<open>get_download_speed and get_upload_speed\<close>

definition mbps :: "int \<Rightarrow> real \<Rightarrow> error + real" where
  "mbps nbytes t =
     (if t = 0 then Inl (ZeroDivisionError ''float division by zero'')
      else Inr (py_round2 (real_of_int nbytes / t * 8 / 1000000)))"

definition get_download_speed :: "CloudflareIPTester \<Rightarrow> world \<Rightarrow> string \<Rightarrow> error + real" where
  "get_download_speed self w addr =
     (let download_size = test_size self * 1024
      in case download_time w addr download_size of
           Returns t \<Rightarrow> mbps download_size t
         | Raises e \<Rightarrow> (if is_RequestException e then Inr 0 else Inl e))"

definition get_upload_speed :: "CloudflareIPTester \<Rightarrow> world \<Rightarrow> string \<Rightarrow> error + real" where
  "get_upload_speed self w addr =
     (let upload_size = test_size self * 1024
      in case upload_time w addr upload_size of
           Returns t \<Rightarrow> mbps upload_size t
         | Raises e \<Rightarrow> (if is_RequestException e then Inr 0 else Inl e))"

subsection \<open>filter_ips_by_ping\<close>

text \<open>
  The loop of \<open>filter_ips_by_ping\<close>: the pairs appended to \<open>ip_ping_results\<close>, in the
  order of the list, and the warnings logged by the handler, one for each exception of
  \<open>get_ping\<close>.
\<close>

fun ping_loop ::
  "CloudflareIPTester \<Rightarrow> world \<Rightarrow> string list \<Rightarrow> (string \<times> int) list \<times> (string \<times> error) list"
where
  "ping_loop self w [] = ([], [])"
| "ping_loop self w (addr # rest) =
     (case ping_loop self w rest of
        (results, warnings) \<Rightarrow>
          (case get_ping self w addr of
             Inl e \<Rightarrow> (results, (addr, e) # warnings)
           | Inr ping_time \<Rightarrow>
               (if 0 < ping_time \<and> ping_time \<le> max_ping self
                then ((addr, ping_time) # results, warnings)
                else (results, warnings))))"

text \<open>\<open>list.sort(key=...)\<close> is a stable sort, as \<open>sort_key\<close> is.\<close>

definition filter_ips_by_ping ::
  "CloudflareIPTester \<Rightarrow> world \<Rightarrow> string list \<Rightarrow> (string \<times> int) list \<times> (string \<times> error) list"
where
  "filter_ips_by_ping self w ip_list =
     (case ping_loop self w ip_list of
        (results, warnings) \<Rightarrow> (slice_to (max_ips self) (sort_key snd results), warnings))"

subsection \<open>run_tests\<close>

text \<open>The first \<open>try\<close> of \<open>run_tests\<close>: read the candidates, then shuffle them
  (\<open>CHR 0x27\<close> is the single quote of the message).\<close>

definition load_ip_list :: "CloudflareIPTester \<Rightarrow> world \<Rightarrow> error + string list" where
  "load_ip_list self w =
     (case read_ips w (ip_file self) of
        Inl e \<Rightarrow> Inl (ValueError (''Failed to read '' @ [CHR 0x27] @ ''ip_list'' @ [CHR 0x27] @ '': ''
                               @ str_of e))
      | Inr ips \<Rightarrow> Inr (random_shuffle w ips))"

text \<open>
  The body of the loop over the ranked candidates: \<open>Inl e\<close> is an exception (the loop's
  handler logs it), \<open>Inr None\<close> is a \<open>continue\<close>, \<open>Inr (Some m)\<close> is the record appended.
\<close>

definition test_ip ::
  "CloudflareIPTester \<Rightarrow> world \<Rightarrow> colo_row list \<Rightarrow> string \<Rightarrow> int
     \<Rightarrow> error + IPPerformanceMetrics option"
where
  "test_ip self w colo_data addr p =
     (case get_colo_from_ip w addr of
        Inl e \<Rightarrow> Inl e
      | Inr None \<Rightarrow> Inr None
      | Inr (Some colo) \<Rightarrow>
          (if colo = [] then Inr None
           else (case get_region_from_colo colo colo_data of
                   Inl e \<Rightarrow> Inl e
                 | Inr reg \<Rightarrow>
                     (if reg \<notin> set (regions self) then Inr None
                      else (case get_download_speed self w addr of
                              Inl e \<Rightarrow> Inl e
                            | Inr d \<Rightarrow>
                                (case get_upload_speed self w addr of
                                   Inl e \<Rightarrow> Inl e
                                 | Inr u \<Rightarrow>
                                     (if float_lt (Finite d) (min_download_speed self)
                                         \<or> float_lt (Finite u) (min_upload_speed self)
                                      then Inr None
                                      else Inr (Some \<lparr>ip = addr, region = reg, ping = p,
                                                      upload_speed = u, download_speed = d\<rparr>))))))))"

fun test_ips ::
  "CloudflareIPTester \<Rightarrow> world \<Rightarrow> colo_row list \<Rightarrow> (string \<times> int) list
     \<Rightarrow> IPPerformanceMetrics list"
where
  "test_ips self w colo_data [] = []"
| "test_ips self w colo_data ((addr, p) # rest) =
     (case test_ip self w colo_data addr p of
        Inr (Some m) \<Rightarrow> m # test_ips self w colo_data rest
      | _ \<Rightarrow> test_ips self w colo_data rest)"

text \<open>The ranked set that \<open>run_tests\<close> computes (\<open>filtered_ip_ping_results\<close>).\<close>

definition ranked_ips :: "CloudflareIPTester \<Rightarrow> world \<Rightarrow> error + (string \<times> int) list" where
  "ranked_ips self w =
     (case load_ip_list self w of
        Inl e \<Rightarrow> Inl e
      | Inr ip_list \<Rightarrow>
          (let filtered = fst (filter_ips_by_ping self w ip_list)
           in if filtered = [] then Inl (RuntimeError ''No IPs passed the ping filter.'')
              else Inr filtered))"

definition run_tests :: "CloudflareIPTester \<Rightarrow> world \<Rightarrow> error + IPPerformanceMetrics list" where
  "run_tests self w =
     (case ranked_ips self w of
        Inl e \<Rightarrow> Inl e
      | Inr filtered \<Rightarrow>
          (case fetch_cloudflare_colo_data w of
             Inl e \<Rightarrow> Inl e
           | Inr colo_data \<Rightarrow>
               (if colo_data = []
                then Inl (RuntimeError ''Critical error: Failed to fetch Cloudflare colo data.'')
                else Inr (test_ips self w colo_data filtered))))"

subsection \<open>export_results and main\<close>

definition csv_header :: "string list" where
  "csv_header = [''IP'', ''Region'', ''Ping (ms)'', ''Upload (Mbps)'', ''Download (Mbps)'']"

text \<open>
  The file object that \<open>open\<close> returns: the text written to it that waits in its buffer,
  and the text that has reached the device. A flush moves the pending text to the
  device as far as the device has room, and fails when some of it is left. The fault
  modelled is a device with limited room (a full device, a quota, a limit on the size of
  a file); text is counted in characters.
\<close>

record outfile =
  pending :: string
  on_device :: string

definition flush :: "nat option \<Rightarrow> outfile \<Rightarrow> bool \<times> outfile" where
  "flush capacity f =
     (case capacity of
        None \<Rightarrow> (True, \<lparr>pending = [], on_device = on_device f @ pending f\<rparr>)
      | Some c \<Rightarrow>
          (let room = c - length (on_device f)
           in if length (pending f) \<le> room
              then (True, \<lparr>pending = [], on_device = on_device f @ pending f\<rparr>)
              else (False, \<lparr>pending = drop room (pending f),
                            on_device = on_device f @ take room (pending f)\<rparr>)))"

text \<open>Writing text to the file object: it is flushed when the buffer is over its size.\<close>

definition file_write :: "nat \<Rightarrow> nat option \<Rightarrow> string \<Rightarrow> outfile \<Rightarrow> bool \<times> outfile" where
  "file_write bufsize capacity s f =
     (let f' = f\<lparr>pending := pending f @ s\<rparr>
      in if bufsize < length (pending f') then flush capacity f' else (True, f'))"

text \<open>The calls of \<open>writerow\<close>, up to the first one that raises.\<close>

fun writerows :: "world \<Rightarrow> string \<Rightarrow> string list list \<Rightarrow> outfile \<Rightarrow> bool \<times> outfile" where
  "writerows w path [] f = (True, f)"
| "writerows w path (row # rows) f =
     (case file_write (buffer_size w) (device_capacity w path) (csv_format w row) f of
        (True, f') \<Rightarrow> writerows w path rows f'
      | (False, f') \<Rightarrow> (False, f'))"

definition export_failed :: "error \<Rightarrow> error" where
  "export_failed e = IOError (''Critical error: Failed to export results: '' @ str_of e)"

text \<open>
  Opening with mode \<open>w\<close> empties the file. The \<open>with\<close> statement closes the file, which
  flushes it, whether a \<open>writerow\<close> has raised or not; an error of a \<open>writerow\<close> or of
  the close is caught by the handler of \<open>export_results\<close>.
\<close>

definition export_results ::
  "CloudflareIPTester \<Rightarrow> world \<Rightarrow> IPPerformanceMetrics list \<Rightarrow> filesystem
     \<Rightarrow> (error + unit) \<times> filesystem"
where
  "export_results self w results fs =
     (case open_fault w (output_file self) of
        Some e \<Rightarrow> (Inl (export_failed e), fs)
      | None \<Rightarrow>
          (case writerows w (output_file self) (csv_header # map to_csv_row results)
                  \<lparr>pending = [], on_device = []\<rparr> of
             (written, f) \<Rightarrow>
               (case flush (device_capacity w (output_file self)) f of
                  (flushed, f') \<Rightarrow>
                    (if written \<and> flushed
                     then (Inr (), fs(output_file self \<mapsto> on_device f'))
                     else (Inl (export_failed (device_error w (output_file self))),
                           fs(output_file self \<mapsto> on_device f'))))))"

text \<open>The text of the rows, and what a device of some capacity keeps of a text.\<close>

definition csv_text :: "world \<Rightarrow> IPPerformanceMetrics list \<Rightarrow> string" where
  "csv_text w results = concat (map (csv_format w) (csv_header # map to_csv_row results))"

definition fits :: "nat option \<Rightarrow> string \<Rightarrow> bool" where
  "fits capacity t = (case capacity of None \<Rightarrow> True | Some c \<Rightarrow> length t \<le> c)"

definition accepted :: "nat option \<Rightarrow> string \<Rightarrow> string" where
  "accepted capacity t = (case capacity of None \<Rightarrow> t | Some c \<Rightarrow> take c t)"

definition main ::
  "CloudflareIPTester \<Rightarrow> world \<Rightarrow> filesystem
     \<Rightarrow> (error + IPPerformanceMetrics list) \<times> filesystem"
where
  "main self w fs =
     (case run_tests self w of
        Inl e \<Rightarrow> (Inl e, fs)
      | Inr results \<Rightarrow>
          (case export_results self w results fs of
             (Inl e, fs') \<Rightarrow> (Inl e, fs')
           | (Inr u, fs') \<Rightarrow> (Inr results, fs')))"

subsection \<open>The latency filter, as a predicate\<close>

text \<open>A candidate passes the latency filter when \<open>get_ping\<close> returns a value that the
  test of \<open>filter_ips_by_ping\<close> accepts; \<open>ping_entry\<close> is the pair the loop appends.\<close>

definition ping_passes :: "CloudflareIPTester \<Rightarrow> world \<Rightarrow> string \<Rightarrow> bool" where
  "ping_passes self w addr =
     (case get_ping self w addr of
        Inl e \<Rightarrow> False
      | Inr t \<Rightarrow> 0 < t \<and> t \<le> max_ping self)"

definition ping_entry ::
  "CloudflareIPTester \<Rightarrow> world \<Rightarrow> string \<Rightarrow> (string \<times> int) option"
where
  "ping_entry self w addr =
     (case get_ping self w addr of
        Inl e \<Rightarrow> None
      | Inr t \<Rightarrow> if 0 < t \<and> t \<le> max_ping self then Some (addr, t) else None)"

subsection \<open>Example runs\<close>

text \<open>
  A tester with the default thresholds, and a world with three addresses: two answer the
  latency probe (30 ms and 10 ms), the third times out after 100.4 ms. The candidate
  file has three lines; the second is not an address and the third ends in a no-break
  space.
\<close>

definition tester0 :: CloudflareIPTester where
  "tester0 =
     \<lparr>max_ips = 10, max_ping = 100, test_size = 1024, min_download_speed = Finite 5,
      min_upload_speed = Finite 2, regions = [''Europe'', ''Asia_Pacific''],
      output_file = ''ip_performance.csv'', ip_file = ''ips.txt''\<rparr>"

definition row_fra :: colo_row where
  "row_fra = [''colo'' \<mapsto> Some ''FRA'', ''region'' \<mapsto> Some ''Europe'']"

definition row_sin :: colo_row where
  "row_sin = [''colo'' \<mapsto> Some ''SIN'', ''region'' \<mapsto> Some ''Asia Pacific'']"

definition row_lax :: colo_row where
  "row_lax = [''colo'' \<mapsto> Some ''LAX'', ''region'' \<mapsto> Some ''North America'']"

definition table0 :: "colo_row list" where
  "table0 = [row_fra, row_sin, row_lax]"

text \<open>What \<open>csv.writer\<close> writes for a row whose cells need no quoting: the cells with
  commas between them, then a carriage return and a line feed.\<close>

fun comma_separated :: "string list \<Rightarrow> string" where
  "comma_separated [] = []"
| "comma_separated [c] = c"
| "comma_separated (c # cs) = c @ '','' @ comma_separated cs"

definition csv_join :: "string list \<Rightarrow> string" where
  "csv_join cells = comma_separated cells @ [CHR 0x0D, CHR 0x0A]"

definition world0 :: world where
  "world0 =
     \<lparr>PING_AVAILABLE = True,
      ip_address_parses = (\<lambda>s. s = ''1.1.1.1'' \<or> s = ''8.8.8.8'' \<or> s = ''9.9.9.9''),
      file_lines =
        (\<lambda>p. if p = ''ips.txt''
              then Returns [''1.1.1.1'' @ [CHR 0x0A], ''bad-ip'' @ [CHR 0x0A],
                            ''8.8.8.8'' @ [CHR 0xA0, CHR 0x0A]]
              else Raises (FileNotFoundError ''No such file or directory'')),
      random_shuffle = (\<lambda>xs. xs),
      ping3_ping =
        (\<lambda>a t. if a = ''1.1.1.1'' then Returns (Seconds (3 / 100))
                else if a = ''8.8.8.8'' then Returns (Seconds (1 / 100))
                else Returns NoneResponse),
      clock_elapsed = (\<lambda>a. 1004 / 10000),
      colo_csv = Returns table0,
      trace_lines =
        (\<lambda>a. if a = ''1.1.1.1'' then Returns [''fl=1'', ''colo=FRA'']
              else Returns [''colo=SIN'']),
      download_time = (\<lambda>a n. Returns (1 / 2)),
      upload_time = (\<lambda>a n. Returns 1),
      open_fault = (\<lambda>p. None),
      csv_format = csv_join,
      buffer_size = 8192,
      device_capacity = (\<lambda>p. None),
      device_error = (\<lambda>p. IOError ''[Errno 27] File too large'')\<rparr>"

text \<open>The records of the two addresses that answer, with a latency of \<open>p\<close> ms.\<close>

definition metrics_fra :: "int \<Rightarrow> IPPerformanceMetrics" where
  "metrics_fra p =
     \<lparr>ip = ''1.1.1.1'', region = ''Europe'', ping = p, upload_speed = 839 / 100,
      download_speed = 1678 / 100\<rparr>"

definition metrics_sin :: "int \<Rightarrow> IPPerformanceMetrics" where
  "metrics_sin p =
     \<lparr>ip = ''8.8.8.8'', region = ''Asia_Pacific'', ping = p, upload_speed = 839 / 100,
      download_speed = 1678 / 100\<rparr>"

text \<open>The same world where both addresses answer in 10 ms.\<close>

definition world_tie :: world where
  "world_tie = world0\<lparr>ping3_ping := (\<lambda>a t. Returns (Seconds (1 / 100)))\<rparr>"

text \<open>The same world on a host without the ping3 library.\<close>

definition world_noping :: world where
  "world_noping = world0\<lparr>PING_AVAILABLE := False\<rparr>"

text \<open>The same world where the size of a file is limited to 92 characters.\<close>

definition world_full :: world where
  "world_full = world0\<lparr>device_capacity := (\<lambda>p. Some 92)\<rparr>"

text \<open>A tester whose download threshold is not a number, and the world where every
  download request fails.\<close>

definition tester_nan :: CloudflareIPTester where
  "tester_nan = tester0\<lparr>min_download_speed := NaN\<rparr>"

definition world_nodownload :: world where
  "world_nodownload =
     world0\<lparr>download_time := (\<lambda>a n. Raises (RequestException ''Read timed out.''))\<rparr>"

text \<open>The world of the tie where the shuffle reverses the list.\<close>

definition world_tie_rev :: world where
  "world_tie_rev = world_tie\<lparr>random_shuffle := rev\<rparr>"

text \<open>The same world where no line of the candidate file is an address.\<close>

definition world_novalid :: world where
  "world_novalid =
     world0\<lparr>file_lines :=
              (\<lambda>p. Returns [''bad-ip'' @ [CHR 0xA0, CHR 0x0A], [CHR 0x85, CHR 0x0A]])\<rparr>"

text \<open>The same world where the output file cannot be opened.\<close>

definition world_readonly :: world where
  "world_readonly =
     world0\<lparr>open_fault := (\<lambda>p. Some (IOError ''[Errno 13] Permission denied''))\<rparr>"

section \<open>Evaluating the example runs\<close>


lemma tester0_fields:
  "max_ips tester0 = 10" "max_ping tester0 = 100" "test_size tester0 = 1024"
  "min_download_speed tester0 = Finite 5" "min_upload_speed tester0 = Finite 2"
  "regions tester0 = [''Europe'', ''Asia_Pacific'']"
  "output_file tester0 = ''ip_performance.csv''" "ip_file tester0 = ''ips.txt''"
  by (simp_all add: tester0_def)

lemma world0_fields:
  "PING_AVAILABLE world0"
  "ip_address_parses world0 s = (s = ''1.1.1.1'' \<or> s = ''8.8.8.8'' \<or> s = ''9.9.9.9'')"
  "file_lines world0 ''ips.txt'' =
     Returns [''1.1.1.1'' @ [CHR 0x0A], ''bad-ip'' @ [CHR 0x0A],
              ''8.8.8.8'' @ [CHR 0xA0, CHR 0x0A]]"
  "random_shuffle world0 xs = xs"
  "ping3_ping world0 ''1.1.1.1'' t = Returns (Seconds (3 / 100))"
  "ping3_ping world0 ''8.8.8.8'' t = Returns (Seconds (1 / 100))"
  "ping3_ping world0 ''9.9.9.9'' t = Returns NoneResponse"
  "clock_elapsed world0 a = 1004 / 10000"
  "colo_csv world0 = Returns table0"
  "trace_lines world0 ''1.1.1.1'' = Returns [''fl=1'', ''colo=FRA'']"
  "trace_lines world0 ''8.8.8.8'' = Returns [''colo=SIN'']"
  "download_time world0 a n = Returns (1 / 2)"
  "upload_time world0 a n = Returns 1"
  "open_fault world0 p = None"
  "csv_format world0 = csv_join"
  "buffer_size world0 = 8192"
  "device_capacity world0 p = None"
  "device_error world0 p = IOError ''[Errno 27] File too large''"
  by (simp_all add: world0_def)

lemma read_ips_world0: "read_ips world0 ''ips.txt'' = Inr [''1.1.1.1'', ''8.8.8.8'']"
  by (simp add: read_ips_def read_ips_try_def world0_fields strip_def is_space_def validate_ip_def)

lemma get_ping_world0:
  "get_ping tester0 world0 ''1.1.1.1'' = Inr 30"
  "get_ping tester0 world0 ''8.8.8.8'' = Inr 10"
  "get_ping tester0 world0 ''9.9.9.9'' = Inr 100"
  by (simp_all add: get_ping_def world0_fields tester0_fields py_int_def)

lemma filter_world0:
  "filter_ips_by_ping tester0 world0 [''1.1.1.1'', ''8.8.8.8''] =
     ([(''8.8.8.8'', 10), (''1.1.1.1'', 30)], [])"
  by (simp add: filter_ips_by_ping_def get_ping_world0 tester0_fields slice_to_def)

lemma region_table0:
  "get_region_from_colo ''FRA'' table0 = Inr ''Europe''"
  "get_region_from_colo ''SIN'' table0 = Inr ''Asia_Pacific''"
  "get_region_from_colo ''LAX'' table0 = Inr ''North_America''"
  "get_region_from_colo ''fra'' table0 = Inr ''Unknown''"
  by (simp_all add: table0_def row_fra_def row_sin_def row_lax_def replace_space_def)

lemma speeds_world0:
  "get_download_speed tester0 world0 a = Inr (1678 / 100)"
  "get_upload_speed tester0 world0 a = Inr (839 / 100)"
  by (simp_all add: get_download_speed_def get_upload_speed_def mbps_def py_round2_def
        round_half_even_def Let_def world0_fields tester0_fields)

lemma colo_world0:
  "get_colo_from_ip world0 ''1.1.1.1'' = Inr (Some ''FRA'')"
  "get_colo_from_ip world0 ''8.8.8.8'' = Inr (Some ''SIN'')"
  by (simp_all add: get_colo_from_ip_def world0_fields startswith_def)

lemma test_ip_world0:
  "test_ip tester0 world0 table0 ''1.1.1.1'' p = Inr (Some (metrics_fra p))"
  "test_ip tester0 world0 table0 ''8.8.8.8'' p = Inr (Some (metrics_sin p))"
  by (simp_all add: test_ip_def colo_world0 region_table0 speeds_world0 tester0_fields
        metrics_fra_def metrics_sin_def)

lemma row_colos:
  "row_fra ''colo'' = Some (Some ''FRA'')" "row_sin ''colo'' = Some (Some ''SIN'')"
  "row_lax ''colo'' = Some (Some ''LAX'')" "row_sin ''region'' = Some (Some ''Asia Pacific'')"
  by (simp_all add: row_fra_def row_sin_def row_lax_def)

lemma table0_nonempty: "table0 \<noteq> []"
  by (simp add: table0_def)

lemma run_tests_world0: "run_tests tester0 world0 = Inr [metrics_sin 10, metrics_fra 30]"
  by (simp add: run_tests_def ranked_ips_def load_ip_list_def read_ips_world0 filter_world0
        fetch_cloudflare_colo_data_def world0_fields tester0_fields test_ip_world0 table0_nonempty)


lemma world_novalid_lines:
  "file_lines world_novalid p = Returns [''bad-ip'' @ [CHR 0xA0, CHR 0x0A], [CHR 0x85, CHR 0x0A]]"
  "ip_address_parses world_novalid s = ip_address_parses world0 s"
  by (simp_all add: world_novalid_def)

lemma world_tie_fields:
  "PING_AVAILABLE world_tie"
  "ping3_ping world_tie a t = Returns (Seconds (1 / 100))"
  "file_lines world_tie = file_lines world0"
  "ip_address_parses world_tie = ip_address_parses world0"
  "random_shuffle world_tie xs = xs"
  "colo_csv world_tie = Returns table0"
  "trace_lines world_tie = trace_lines world0"
  "download_time world_tie = download_time world0"
  "upload_time world_tie = upload_time world0"
  by (simp_all add: world_tie_def world0_fields)

lemma world_tie_rev_fields:
  "PING_AVAILABLE world_tie_rev"
  "ping3_ping world_tie_rev a t = Returns (Seconds (1 / 100))"
  "file_lines world_tie_rev = file_lines world0"
  "ip_address_parses world_tie_rev = ip_address_parses world0"
  "random_shuffle world_tie_rev xs = rev xs"
  "colo_csv world_tie_rev = Returns table0"
  "trace_lines world_tie_rev = trace_lines world0"
  "download_time world_tie_rev = download_time world0"
  "upload_time world_tie_rev = upload_time world0"
  by (simp_all add: world_tie_rev_def world_tie_fields)

lemma read_ips_tie:
  "read_ips world_tie ''ips.txt'' = Inr [''1.1.1.1'', ''8.8.8.8'']"
  "read_ips world_tie_rev ''ips.txt'' = Inr [''1.1.1.1'', ''8.8.8.8'']"
  by (simp_all add: read_ips_def read_ips_try_def world_tie_fields world_tie_rev_fields
        world0_fields strip_def is_space_def validate_ip_def)

lemma get_ping_tie:
  "get_ping tester0 world_tie a = Inr 10"
  "get_ping tester0 world_tie_rev a = Inr 10"
  by (simp_all add: get_ping_def world_tie_fields world_tie_rev_fields tester0_fields py_int_def)

lemma ranked_tie:
  "ranked_ips tester0 world_tie = Inr [(''1.1.1.1'', 10), (''8.8.8.8'', 10)]"
  "ranked_ips tester0 world_tie_rev = Inr [(''8.8.8.8'', 10), (''1.1.1.1'', 10)]"
  by (simp_all add: ranked_ips_def load_ip_list_def read_ips_tie filter_ips_by_ping_def
        get_ping_tie world_tie_fields world_tie_rev_fields tester0_fields slice_to_def)

section \<open>The latency ranking\<close>

lemma fst_ping_loop: "fst (ping_loop self w ips) = List.map_filter (ping_entry self w) ips"
  by (induction ips) (auto simp: ping_entry_def split: prod.splits sum.splits)

lemma fst_filter_ips_by_ping:
  "fst (filter_ips_by_ping self w ips) =
     slice_to (max_ips self) (sort_key snd (List.map_filter (ping_entry self w) ips))"
  using fst_ping_loop[of self w ips]
  by (cases "ping_loop self w ips") (simp add: filter_ips_by_ping_def)

lemma length_ping_entries:
  "length (List.map_filter (ping_entry self w) ips) = length (filter (ping_passes self w) ips)"
  by (induction ips) (auto simp: ping_entry_def ping_passes_def split: sum.splits)

lemma ping_entry_Some:
  "ping_entry self w a = Some x \<longleftrightarrow>
     (\<exists>t. x = (a, t) \<and> get_ping self w a = Inr t \<and> 0 < t \<and> t \<le> max_ping self)"
  by (auto simp: ping_entry_def split: sum.splits)

lemma set_ping_entries:
  "x \<in> set (List.map_filter (ping_entry self w) ips) \<longleftrightarrow>
     (\<exists>a\<in>set ips. ping_entry self w a = Some x)"
  by (induction ips) (auto split: option.splits)

lemma set_slice_to: "x \<in> set (slice_to n xs) \<Longrightarrow> x \<in> set xs"
  by (auto simp: slice_to_def dest: in_set_takeD split: if_splits)

lemma prefix_slice_to: "prefix (slice_to n xs) xs"
  by (simp add: slice_to_def take_is_prefix)

lemma ranked_entry:
  assumes "(a, t) \<in> set (fst (filter_ips_by_ping self w ips))"
  shows "a \<in> set ips \<and> get_ping self w a = Inr t \<and> 0 < t \<and> t \<le> max_ping self"
proof -
  from assms have "(a, t) \<in> set (List.map_filter (ping_entry self w) ips)"
    by (auto simp: fst_filter_ips_by_ping dest: set_slice_to)
  then show ?thesis
    by (auto simp: set_ping_entries ping_entry_Some)
qed

lemma ties_of_entries:
  "map fst (filter (\<lambda>x. snd x = k) (List.map_filter (ping_entry self w) ips)) =
     filter (\<lambda>a. ping_entry self w a = Some (a, k)) ips"
  by (induction ips) (auto simp: ping_entry_def split: sum.splits)

lemma prefix_ties_of_entries:
  "prefix (filter (\<lambda>a. ping_entry self w a = Some (a, k)) ips)
          (filter (\<lambda>a. get_ping self w a = Inr k) ips)"
proof (cases "0 < k \<and> k \<le> max_ping self")
  case True
  then have "(\<lambda>a. ping_entry self w a = Some (a, k)) = (\<lambda>a. get_ping self w a = Inr k)"
    by (auto simp: ping_entry_Some fun_eq_iff)
  then show ?thesis by simp
next
  case False
  then have "filter (\<lambda>a. ping_entry self w a = Some (a, k)) ips = []"
    by (auto simp: filter_empty_conv ping_entry_Some)
  then show ?thesis by simp
qed

lemma tie_order:
  "prefix (map fst (filter (\<lambda>x. snd x = k) (fst (filter_ips_by_ping self w ips))))
          (filter (\<lambda>a. get_ping self w a = Inr k) ips)"
proof -
  let ?res = "List.map_filter (ping_entry self w) ips"
  have "prefix (filter (\<lambda>x. snd x = k) (slice_to (max_ips self) (sort_key snd ?res)))
               (filter (\<lambda>x. snd x = k) (sort_key snd ?res))"
    by (rule filter_mono_prefix) (rule prefix_slice_to)
  then have "prefix (filter (\<lambda>x. snd x = k) (fst (filter_ips_by_ping self w ips)))
                    (filter (\<lambda>x. snd x = k) ?res)"
    by (simp add: fst_filter_ips_by_ping sort_key_stable)
  then have "prefix (map fst (filter (\<lambda>x. snd x = k) (fst (filter_ips_by_ping self w ips))))
                    (map fst (filter (\<lambda>x. snd x = k) ?res))"
    by (rule map_mono_prefix)
  then have "prefix (map fst (filter (\<lambda>x. snd x = k) (fst (filter_ips_by_ping self w ips))))
                    (filter (\<lambda>a. ping_entry self w a = Some (a, k)) ips)"
    by (simp only: ties_of_entries)
  then show ?thesis
    using prefix_ties_of_entries by (rule prefix_order.trans)
qed

lemma ranked_ips_Inr:
  assumes "ranked_ips self w = Inr ranked"
  shows "\<exists>ips. read_ips w (ip_file self) = Inr ips
           \<and> ranked = fst (filter_ips_by_ping self w (random_shuffle w ips))"
  using assms
  by (auto simp: ranked_ips_def load_ip_list_def Let_def split: sum.splits if_splits)

text \<open>
  C5. When \<open>max_ips\<close> is not negative, the ranked set has exactly
  \<open>min max_ips n\<close> entries, where \<open>n\<close> is the number of candidates of the list that pass
  the latency filter, and its latencies are in ascending order.
\<close>

theorem filter_ips_by_ping_size_sorted:
  "0 \<le> max_ips self \<Longrightarrow>
   length (fst (filter_ips_by_ping self w ips)) =
     min (nat (max_ips self)) (length (filter (ping_passes self w) ips))
   \<and> sorted (map snd (fst (filter_ips_by_ping self w ips)))"
  by (simp add: fst_filter_ips_by_ping slice_to_def length_ping_entries take_map[symmetric]
        sorted_wrt_take)

text \<open>C5 on the example: two candidates pass, ten are allowed, both are ranked.\<close>

theorem filter_ips_by_ping_size_sorted_witness:
  "0 \<le> max_ips tester0
   \<and> length (fst (filter_ips_by_ping tester0 world0 [''1.1.1.1'', ''8.8.8.8''])) =
       min (nat (max_ips tester0))
         (length (filter (ping_passes tester0 world0) [''1.1.1.1'', ''8.8.8.8'']))
   \<and> sorted (map snd (fst (filter_ips_by_ping tester0 world0 [''1.1.1.1'', ''8.8.8.8''])))
   \<and> fst (filter_ips_by_ping tester0 world0 [''1.1.1.1'', ''8.8.8.8'']) =
       [(''8.8.8.8'', 10), (''1.1.1.1'', 30)]"
  using filter_ips_by_ping_size_sorted[of tester0 world0 "[''1.1.1.1'', ''8.8.8.8'']"]
  by (simp add: tester0_fields filter_world0)

text \<open>
  C4, as the code has it. Every entry of the ranked set carries the value that
  \<open>get_ping\<close> returned for its address, and that value is positive and at most
  \<open>max_ping\<close>; an address whose probe raised is never ranked.
\<close>

theorem filter_ips_by_ping_range:
  assumes "(a, t) \<in> set (fst (filter_ips_by_ping self w ips))"
  shows "0 < t \<and> t \<le> max_ping self \<and> get_ping self w a = Inr t
         \<and> (\<forall>e. ping3_ping w a (real_of_int (max_ping self) / 1000) \<noteq> Raises e)"
proof -
  from ranked_entry[OF assms] have r: "get_ping self w a = Inr t" "0 < t" "t \<le> max_ping self"
    by simp_all
  from r(1) r(2) have "\<forall>e. ping3_ping w a (real_of_int (max_ping self) / 1000) \<noteq> Raises e"
    by (auto simp: get_ping_def split: if_splits)
  with r show ?thesis by simp
qed

text \<open>C4 on the example: the address that answered in 10 ms is ranked with 10.\<close>

theorem filter_ips_by_ping_range_witness:
  "(''8.8.8.8'', 10) \<in> set (fst (filter_ips_by_ping tester0 world0 [''1.1.1.1'', ''8.8.8.8'']))
   \<and> (0::int) < 10 \<and> 10 \<le> max_ping tester0
   \<and> get_ping tester0 world0 ''8.8.8.8'' = Inr 10
   \<and> (\<forall>e. ping3_ping world0 ''8.8.8.8'' (real_of_int (max_ping tester0) / 1000) \<noteq> Raises e)"
proof -
  have h: "(''8.8.8.8'', 10)
             \<in> set (fst (filter_ips_by_ping tester0 world0 [''1.1.1.1'', ''8.8.8.8'']))"
    by (simp add: filter_world0)
  from filter_ips_by_ping_range[OF h] h show ?thesis by simp
qed

text \<open>
  C4 as stated fails: the probe of 9.9.9.9 times out (\<open>ping3.ping\<close> returns \<open>None\<close>), the
  clock has advanced by 100.4 ms, and the address is ranked with a latency of 100.
\<close>

theorem timed_out_candidate_ranked:
  "ping3_ping world0 ''9.9.9.9'' (real_of_int (max_ping tester0) / 1000) = Returns NoneResponse
   \<and> fst (filter_ips_by_ping tester0 world0 [''9.9.9.9'']) = [(''9.9.9.9'', 100)]"
  by (simp add: world0_fields filter_ips_by_ping_def get_ping_world0 tester0_fields slice_to_def)

section \<open>The latency probe\<close>

text \<open>
  C3, as the code has it. With the ping3 library present \<open>get_ping\<close> never raises; when
  the probe raises it returns \<open>-1\<close>; when the probe returns no response (\<open>None\<close> on a
  timeout, \<open>False\<close> on an error) it returns the time elapsed since the probe started, in
  whole milliseconds.
\<close>

theorem get_ping_failure_values:
  assumes "PING_AVAILABLE w"
  shows "(\<exists>t. get_ping self w a = Inr t)
     \<and> (\<forall>e. ping3_ping w a (real_of_int (max_ping self) / 1000) = Raises e
            \<longrightarrow> get_ping self w a = Inr (- 1))
     \<and> (ping3_ping w a (real_of_int (max_ping self) / 1000) = Returns NoneResponse
          \<or> ping3_ping w a (real_of_int (max_ping self) / 1000) = Returns FalseResponse
        \<longrightarrow> get_ping self w a = Inr (py_int (clock_elapsed w a * 1000)))"
  using assms by (auto simp: get_ping_def split: outcome.splits ping_response.splits)

text \<open>C3 on the example: the probe of 9.9.9.9 times out and the elapsed time is returned.\<close>

theorem get_ping_failure_values_witness:
  "PING_AVAILABLE world0
   \<and> ping3_ping world0 ''9.9.9.9'' (real_of_int (max_ping tester0) / 1000) = Returns NoneResponse
   \<and> get_ping tester0 world0 ''9.9.9.9'' = Inr (py_int (clock_elapsed world0 ''9.9.9.9'' * 1000))
   \<and> py_int (clock_elapsed world0 ''9.9.9.9'' * 1000) = 100"
  using get_ping_failure_values[of world0 tester0 "''9.9.9.9''"]
  by (simp add: world0_fields py_int_def)

text \<open>
  C3 as stated fails: on a timeout \<open>get_ping\<close> returns 100, a latency that passes the
  filter, and not the value \<open>-1\<close> that it returns when the probe raises.
\<close>

theorem get_ping_timeout_no_sentinel:
  "PING_AVAILABLE world0
   \<and> ping3_ping world0 ''9.9.9.9'' (real_of_int (max_ping tester0) / 1000) = Returns NoneResponse
   \<and> get_ping tester0 world0 ''9.9.9.9'' = Inr 100
   \<and> get_ping tester0 world0 ''9.9.9.9'' \<noteq> Inr (- 1)"
  by (simp add: world0_fields get_ping_world0)

section \<open>Ties in the ranking\<close>

text \<open>
  C6, as the code has it. Among the candidates with one latency \<open>k\<close>, the ranked set
  keeps the order of the list that \<open>run_tests\<close> passes to \<open>filter_ips_by_ping\<close>, which is
  the candidate list after \<open>random.shuffle\<close>: the ranked addresses with latency \<open>k\<close> are
  the first ones of the shuffled list with that latency, in the same order.
\<close>

theorem ranked_ties_in_shuffled_order:
  assumes "ranked_ips self w = Inr ranked" and "read_ips w (ip_file self) = Inr ips"
  shows "prefix (map fst (filter (\<lambda>x. snd x = k) ranked))
                (filter (\<lambda>a. get_ping self w a = Inr k) (random_shuffle w ips))"
  using ranked_ips_Inr[OF assms(1)] assms(2) tie_order[of k self w "random_shuffle w ips"]
  by auto

text \<open>C6 on the tie: both addresses answer in 10 ms, the shuffle reverses the list.\<close>

theorem ranked_ties_in_shuffled_order_witness:
  "ranked_ips tester0 world_tie_rev = Inr [(''8.8.8.8'', 10), (''1.1.1.1'', 10)]
   \<and> read_ips world_tie_rev (ip_file tester0) = Inr [''1.1.1.1'', ''8.8.8.8'']
   \<and> prefix (map fst (filter (\<lambda>x. snd x = 10) [(''8.8.8.8'', 10::int), (''1.1.1.1'', 10)]))
        (filter (\<lambda>a. get_ping tester0 world_tie_rev a = Inr 10)
           (random_shuffle world_tie_rev [''1.1.1.1'', ''8.8.8.8'']))"
proof -
  have r: "read_ips world_tie_rev (ip_file tester0) = Inr [''1.1.1.1'', ''8.8.8.8'']"
    by (simp add: tester0_fields read_ips_tie)
  from ranked_ties_in_shuffled_order[OF ranked_tie(2) r, of 10] ranked_tie(2) r show ?thesis by simp
qed

text \<open>
  C6 as stated fails: the file lists 1.1.1.1 before 8.8.8.8, both have a latency of
  10 ms, and the ranked set has 8.8.8.8 first.
\<close>

theorem ranked_ties_not_in_file_order:
  "read_ips world_tie_rev (ip_file tester0) = Inr [''1.1.1.1'', ''8.8.8.8'']
   \<and> get_ping tester0 world_tie_rev ''1.1.1.1'' = get_ping tester0 world_tie_rev ''8.8.8.8''
   \<and> ranked_ips tester0 world_tie_rev = Inr [(''8.8.8.8'', 10), (''1.1.1.1'', 10)]"
  by (simp add: tester0_fields read_ips_tie get_ping_tie ranked_tie)

section \<open>The candidates accepted by run_tests\<close>

lemma test_ips_member:
  "m \<in> set (test_ips self w cd fl) \<Longrightarrow> \<exists>(a, p) \<in> set fl. test_ip self w cd a p = Inr (Some m)"
  by (induction self w cd fl rule: test_ips.induct) (auto split: sum.splits option.splits)

lemma test_ip_accepts:
  assumes "test_ip self w cd a p = Inr (Some m)"
  shows "ip m = a \<and> ping m = p \<and> region m \<in> set (regions self)
         \<and> \<not> float_lt (Finite (download_speed m)) (min_download_speed self)
         \<and> \<not> float_lt (Finite (upload_speed m)) (min_upload_speed self)"
  using assms
  by (auto simp: test_ip_def split: sum.splits option.splits if_splits)

lemma float_ge_not_lt: "y \<noteq> NaN \<Longrightarrow> float_ge (Finite a) y = (\<not> float_lt (Finite a) y)"
  by (cases y) auto

lemma run_tests_Inr:
  assumes "run_tests self w = Inr results"
  shows "\<exists>ip_list cd. load_ip_list self w = Inr ip_list
           \<and> fst (filter_ips_by_ping self w ip_list) \<noteq> []
           \<and> fetch_cloudflare_colo_data w = Inr cd \<and> cd \<noteq> []
           \<and> results = test_ips self w cd (fst (filter_ips_by_ping self w ip_list))"
  using assms
  by (auto simp: run_tests_def ranked_ips_def Let_def split: sum.splits if_splits)

text \<open>
  C1, as the code has it. Every record of the list that \<open>run_tests\<close> returns has a
  latency that is positive and at most \<open>max_ping\<close> and a region of the configured list,
  and neither of its speeds is below its threshold (the two tests \<open><\<close> of the source
  are false). When a threshold is a number, or an infinity, the speed is at least the
  threshold.
\<close>

theorem run_tests_accepted_records:
  assumes "run_tests self w = Inr results" and "m \<in> set results"
  shows "0 < ping m \<and> ping m \<le> max_ping self
         \<and> region m \<in> set (regions self)
         \<and> \<not> float_lt (Finite (download_speed m)) (min_download_speed self)
         \<and> \<not> float_lt (Finite (upload_speed m)) (min_upload_speed self)
         \<and> (min_download_speed self \<noteq> NaN
              \<longrightarrow> float_ge (Finite (download_speed m)) (min_download_speed self))
         \<and> (min_upload_speed self \<noteq> NaN
              \<longrightarrow> float_ge (Finite (upload_speed m)) (min_upload_speed self))"
proof -
  from run_tests_Inr[OF assms(1)] obtain ip_list cd where
    res: "results = test_ips self w cd (fst (filter_ips_by_ping self w ip_list))"
    by blast
  with assms(2) test_ips_member obtain a p where
    ap: "(a, p) \<in> set (fst (filter_ips_by_ping self w ip_list))"
    and t: "test_ip self w cd a p = Inr (Some m)"
    by blast
  from ranked_entry[OF ap] have "0 < p" "p \<le> max_ping self" by simp_all
  with test_ip_accepts[OF t] show ?thesis by (simp add: float_ge_not_lt)
qed

text \<open>C1 on the example run, for the record of 1.1.1.1; the thresholds are 5 and 2.\<close>

theorem run_tests_accepted_records_witness:
  "run_tests tester0 world0 = Inr [metrics_sin 10, metrics_fra 30]
   \<and> metrics_fra 30 \<in> set [metrics_sin 10, metrics_fra 30]
   \<and> min_download_speed tester0 \<noteq> NaN \<and> min_upload_speed tester0 \<noteq> NaN
   \<and> 0 < ping (metrics_fra 30) \<and> ping (metrics_fra 30) \<le> max_ping tester0
   \<and> region (metrics_fra 30) \<in> set (regions tester0)
   \<and> float_ge (Finite (download_speed (metrics_fra 30))) (min_download_speed tester0)
   \<and> float_ge (Finite (upload_speed (metrics_fra 30))) (min_upload_speed tester0)"
proof -
  have h: "metrics_fra 30 \<in> set [metrics_sin 10, metrics_fra 30]" by simp
  have n: "min_download_speed tester0 \<noteq> NaN" "min_upload_speed tester0 \<noteq> NaN"
    by (simp_all add: tester0_fields)
  from run_tests_accepted_records[OF run_tests_world0 h] run_tests_world0 h n
  show ?thesis by simp
qed

lemma tester_nan_fields:
  "max_ips tester_nan = 10" "max_ping tester_nan = 100" "test_size tester_nan = 1024"
  "min_download_speed tester_nan = NaN" "min_upload_speed tester_nan = Finite 2"
  "regions tester_nan = [''Europe'', ''Asia_Pacific'']" "ip_file tester_nan = ''ips.txt''"
  by (simp_all add: tester_nan_def tester0_fields)

lemma world_nodownload_fields:
  "PING_AVAILABLE world_nodownload"
  "ip_address_parses world_nodownload = ip_address_parses world0"
  "file_lines world_nodownload = file_lines world0"
  "random_shuffle world_nodownload xs = xs"
  "ping3_ping world_nodownload = ping3_ping world0"
  "clock_elapsed world_nodownload = clock_elapsed world0"
  "colo_csv world_nodownload = Returns table0"
  "trace_lines world_nodownload = trace_lines world0"
  "download_time world_nodownload a n = Raises (RequestException ''Read timed out.'')"
  "upload_time world_nodownload = upload_time world0"
  by (simp_all add: world_nodownload_def world0_fields)

lemma read_ips_nodownload:
  "read_ips world_nodownload ''ips.txt'' = Inr [''1.1.1.1'', ''8.8.8.8'']"
  by (simp add: read_ips_def read_ips_try_def world_nodownload_fields world0_fields strip_def
        is_space_def validate_ip_def)

lemma get_ping_nodownload:
  "get_ping tester_nan world_nodownload ''1.1.1.1'' = Inr 30"
  "get_ping tester_nan world_nodownload ''8.8.8.8'' = Inr 10"
  by (simp_all add: get_ping_def world_nodownload_fields world0_fields tester_nan_fields
        py_int_def)

lemma filter_nodownload:
  "filter_ips_by_ping tester_nan world_nodownload [''1.1.1.1'', ''8.8.8.8''] =
     ([(''8.8.8.8'', 10), (''1.1.1.1'', 30)], [])"
  by (simp add: filter_ips_by_ping_def get_ping_nodownload tester_nan_fields slice_to_def)

lemma speeds_nodownload:
  "get_download_speed tester_nan world_nodownload a = Inr 0"
  "get_upload_speed tester_nan world_nodownload a = Inr (839 / 100)"
  by (simp_all add: get_download_speed_def get_upload_speed_def mbps_def py_round2_def
        round_half_even_def Let_def world_nodownload_fields world0_fields tester_nan_fields)

lemma colo_nodownload:
  "get_colo_from_ip world_nodownload a = get_colo_from_ip world0 a"
  by (simp add: get_colo_from_ip_def world_nodownload_fields)

lemma test_ip_nodownload:
  "test_ip tester_nan world_nodownload table0 ''1.1.1.1'' p =
     Inr (Some ((metrics_fra p)\<lparr>download_speed := 0\<rparr>))"
  "test_ip tester_nan world_nodownload table0 ''8.8.8.8'' p =
     Inr (Some ((metrics_sin p)\<lparr>download_speed := 0\<rparr>))"
  by (simp_all add: test_ip_def colo_nodownload colo_world0 region_table0 speeds_nodownload
        tester_nan_fields metrics_fra_def metrics_sin_def)

lemma run_tests_nodownload:
  "run_tests tester_nan world_nodownload =
     Inr [(metrics_sin 10)\<lparr>download_speed := 0\<rparr>, (metrics_fra 30)\<lparr>download_speed := 0\<rparr>]"
  by (simp add: run_tests_def ranked_ips_def load_ip_list_def read_ips_nodownload
        filter_nodownload fetch_cloudflare_colo_data_def world_nodownload_fields
        tester_nan_fields test_ip_nodownload table0_nonempty)

text \<open>
  C1 as stated fails: the download threshold of the configuration is \<open>nan\<close>, every
  download request fails, so every download speed is 0.0, and both candidates are
  accepted although 0.0 is not at least the threshold.
\<close>

theorem nan_threshold_accepts_failed_download:
  "min_download_speed tester_nan = NaN
   \<and> run_tests tester_nan world_nodownload =
       Inr [(metrics_sin 10)\<lparr>download_speed := 0\<rparr>, (metrics_fra 30)\<lparr>download_speed := 0\<rparr>]
   \<and> download_speed ((metrics_sin 10)\<lparr>download_speed := 0\<rparr>) = 0
   \<and> \<not> float_ge (Finite (download_speed ((metrics_sin 10)\<lparr>download_speed := 0\<rparr>)))
          (min_download_speed tester_nan)"
  by (simp add: tester_nan_fields run_tests_nodownload)

section \<open>Reading the candidate file\<close>

text \<open>
  C10. When the file is read and no line of it is a valid address, the \<open>try\<close> of
  \<open>read_ips\<close> raises \<open>ValueError\<close>, the general handler catches it, and \<open>read_ips\<close>
  raises \<open>FileNotFoundError\<close> with the message of the \<open>ValueError\<close> inside: the class
  that a missing file gives.
\<close>

theorem read_ips_no_valid_address:
  "(file_lines w path = Returns ls
      \<and> (\<forall>l\<in>set ls. strip l = [] \<or> \<not> ip_address_parses w (strip l))
    \<longrightarrow> read_ips_try w path = Inl (ValueError ''No valid IP addresses found in the file'')
        \<and> read_ips w path =
            Inl (FileNotFoundError
                  ''Error reading IP file: No valid IP addresses found in the file''))
   \<and> (file_lines w' path' = Raises (FileNotFoundError msg)
    \<longrightarrow> read_ips w' path' = Inl (FileNotFoundError (''IP file not found: '' @ path')))"
proof -
  have "filter (\<lambda>l. strip l \<noteq> [] \<and> validate_ip w (strip l)) ls = []"
    if "\<forall>l\<in>set ls. strip l = [] \<or> \<not> ip_address_parses w (strip l)"
    using that by (auto simp: filter_empty_conv validate_ip_def)
  then show ?thesis
    by (auto simp: read_ips_def read_ips_try_def)
qed

text \<open>C10 on a file with one invalid line that ends in a no-break space and one line of
  white space only, and on a missing file.\<close>

theorem read_ips_no_valid_address_witness:
  "file_lines world_novalid ''ips.txt'' =
     Returns [''bad-ip'' @ [CHR 0xA0, CHR 0x0A], [CHR 0x85, CHR 0x0A]]
   \<and> strip (''bad-ip'' @ [CHR 0xA0, CHR 0x0A]) = ''bad-ip''
   \<and> \<not> ip_address_parses world_novalid ''bad-ip''
   \<and> strip [CHR 0x85, CHR 0x0A] = []
   \<and> file_lines world0 ''missing.txt'' = Raises (FileNotFoundError ''No such file or directory'')
   \<and> read_ips world_novalid ''ips.txt'' =
       Inl (FileNotFoundError ''Error reading IP file: No valid IP addresses found in the file'')
   \<and> read_ips world0 ''missing.txt'' = Inl (FileNotFoundError ''IP file not found: missing.txt'')"
proof -
  have a: "file_lines world_novalid ''ips.txt'' =
             Returns [''bad-ip'' @ [CHR 0xA0, CHR 0x0A], [CHR 0x85, CHR 0x0A]]"
    by (simp add: world_novalid_lines)
  have b: "\<forall>l\<in>set [''bad-ip'' @ [CHR 0xA0, CHR 0x0A], [CHR 0x85, CHR 0x0A]].
             strip l = [] \<or> \<not> ip_address_parses world_novalid (strip l)"
    by (simp add: world_novalid_lines world0_fields strip_def is_space_def)
  have c: "file_lines world0 ''missing.txt'' = Raises (FileNotFoundError ''No such file or directory'')"
    by (simp add: world0_def)
  have d: "strip (''bad-ip'' @ [CHR 0xA0, CHR 0x0A]) = ''bad-ip''"
    "strip [CHR 0x85, CHR 0x0A] = []"
    "\<not> ip_address_parses world_novalid ''bad-ip''"
    by (simp_all add: world_novalid_lines world0_fields strip_def is_space_def)
  from read_ips_no_valid_address[of world_novalid "''ips.txt''"
        "[''bad-ip'' @ [CHR 0xA0, CHR 0x0A], [CHR 0x85, CHR 0x0A]]" world0 "''missing.txt''"
        "''No such file or directory''"] a b c d
  show ?thesis by simp
qed

section \<open>The region of a location code\<close>

lemma no_space_replace_space: "CHR 0x20 \<notin> set (replace_space s)"
  by (auto simp: replace_space_def)

lemma get_region_no_match:
  "\<forall>row\<in>set rows. row ''colo'' \<noteq> Some (Some colo) \<Longrightarrow>
   get_region_from_colo colo rows = Inr ''Unknown''"
  by (induction rows) auto

lemma get_region_first_match:
  "\<forall>row\<in>set pre. row ''colo'' \<noteq> Some (Some colo) \<Longrightarrow> hit ''colo'' = Some (Some colo) \<Longrightarrow>
   get_region_from_colo colo (pre @ hit # post) =
     (case hit ''region'' of
        None \<Rightarrow> Inr ''Unknown''
      | Some None \<Rightarrow> Inl none_has_no_replace
      | Some (Some r) \<Rightarrow> Inr (replace_space r))"
  by (induction pre) (auto simp: replace_space_def split: option.splits)

lemma get_region_no_space:
  "get_region_from_colo colo rows = Inr r \<Longrightarrow> CHR 0x20 \<notin> set r"
  by (induction rows) (auto simp: no_space_replace_space split: if_splits option.splits)

lemma replace_space_nth:
  "length (replace_space r) = length r"
  "i < length r \<Longrightarrow> replace_space r ! i = (if r ! i = CHR 0x20 then CHR ''_'' else r ! i)"
  by (simp_all add: replace_space_def)

text \<open>
  C8. The lookup compares the field \<open>colo\<close> of each row with the code by equality of
  strings (so exactly, and with the case of the letters): when no row has the code, the
  result is \<open>Unknown\<close>; the first row that has it decides, and its region is returned with
  every space replaced by an underscore; no returned name contains a space.
\<close>

theorem get_region_from_colo_lookup:
  "((\<forall>row\<in>set rows. row ''colo'' \<noteq> Some (Some colo))
      \<longrightarrow> get_region_from_colo colo rows = Inr ''Unknown'')
   \<and> ((\<forall>row\<in>set pre. row ''colo'' \<noteq> Some (Some code)) \<and> hit ''colo'' = Some (Some code)
        \<and> hit ''region'' = Some (Some r)
      \<longrightarrow> get_region_from_colo code (pre @ hit # post) = Inr (replace_space r)
          \<and> length (replace_space r) = length r
          \<and> (\<forall>i<length r. replace_space r ! i
                = (if r ! i = CHR 0x20 then CHR ''_'' else r ! i)))
   \<and> (get_region_from_colo key tbl = Inr name \<longrightarrow> CHR 0x20 \<notin> set name)"
  by (simp add: get_region_no_match get_region_first_match get_region_no_space
        replace_space_nth)

text \<open>C8 on the example table: \<open>fra\<close> is not \<open>FRA\<close>; \<open>SIN\<close> gives \<open>Asia_Pacific\<close>.\<close>

theorem get_region_from_colo_lookup_witness:
  "table0 = [row_fra, row_sin, row_lax]
   \<and> row_fra ''colo'' = Some (Some ''FRA'') \<and> row_lax ''colo'' = Some (Some ''LAX'')
   \<and> get_region_from_colo ''fra'' table0 = Inr ''Unknown''
   \<and> row_sin ''colo'' = Some (Some ''SIN'') \<and> row_sin ''region'' = Some (Some ''Asia Pacific'')
   \<and> get_region_from_colo ''SIN'' ([row_fra] @ row_sin # [row_lax]) = Inr ''Asia_Pacific''
   \<and> get_region_from_colo ''LAX'' table0 = Inr ''North_America''
   \<and> CHR 0x20 \<notin> set ''North_America''"
proof -
  have h1: "\<forall>row\<in>set table0. row ''colo'' \<noteq> Some (Some ''fra'')"
    by (simp add: table0_def row_colos)
  have h2: "\<forall>row\<in>set [row_fra]. row ''colo'' \<noteq> Some (Some ''SIN'')"
    by (simp add: row_colos)
  have h3: "get_region_from_colo ''LAX'' table0 = Inr ''North_America''"
    by (rule region_table0)
  have h4: "replace_space ''Asia Pacific'' = ''Asia_Pacific''"
    by (simp add: replace_space_def)
  from get_region_from_colo_lookup[of table0 "''fra''" "[row_fra]" "''SIN''" row_sin "''Asia Pacific''"
        "[row_lax]" "''LAX''" table0 "''North_America''"] h1 h2 h3 h4 row_colos table0_def
  show ?thesis by metis
qed

section \<open>A host without the ping3 library\<close>

lemma get_ping_unavailable: "\<not> PING_AVAILABLE w \<Longrightarrow> get_ping self w a = Inl ping_unavailable"
  by (simp add: get_ping_def)

lemma ping_loop_unavailable:
  "\<not> PING_AVAILABLE w \<Longrightarrow> ping_loop self w ips = ([], map (\<lambda>a. (a, ping_unavailable)) ips)"
  by (induction ips) (simp_all add: get_ping_unavailable)

lemma slice_to_Nil: "slice_to n [] = []"
  by (simp add: slice_to_def)

lemma filter_unavailable:
  "\<not> PING_AVAILABLE w \<Longrightarrow>
   filter_ips_by_ping self w ips = ([], map (\<lambda>a. (a, ping_unavailable)) ips)"
  by (simp add: filter_ips_by_ping_def ping_loop_unavailable slice_to_Nil)

text \<open>
  C7, as the code has it. Without the ping3 library \<open>get_ping\<close> raises the capability
  error for every candidate, the handler of \<open>filter_ips_by_ping\<close> catches it and logs a
  warning for each candidate, the ranked set is empty, and a run that has read its
  candidates fails with the error of the empty ranked set.
\<close>

theorem ping_unavailable_per_candidate:
  assumes "\<not> PING_AVAILABLE w"
  shows "get_ping self w a = Inl ping_unavailable
     \<and> filter_ips_by_ping self w ips = ([], map (\<lambda>a. (a, ping_unavailable)) ips)
     \<and> (load_ip_list self w = Inr ips
          \<longrightarrow> run_tests self w = Inl (RuntimeError ''No IPs passed the ping filter.''))"
  using assms
  by (simp add: get_ping_unavailable filter_unavailable run_tests_def ranked_ips_def)

lemma world_noping_fields:
  "\<not> PING_AVAILABLE world_noping"
  "file_lines world_noping = file_lines world0"
  "ip_address_parses world_noping = ip_address_parses world0"
  "random_shuffle world_noping xs = xs"
  by (simp_all add: world_noping_def world0_fields)

lemma load_noping: "load_ip_list tester0 world_noping = Inr [''1.1.1.1'', ''8.8.8.8'']"
  by (simp add: load_ip_list_def read_ips_def read_ips_try_def world_noping_fields
        world0_fields tester0_fields strip_def is_space_def validate_ip_def)

text \<open>C7 on the example host without ping3, with two candidates.\<close>

theorem ping_unavailable_per_candidate_witness:
  "\<not> PING_AVAILABLE world_noping
   \<and> load_ip_list tester0 world_noping = Inr [''1.1.1.1'', ''8.8.8.8'']
   \<and> get_ping tester0 world_noping ''1.1.1.1'' = Inl ping_unavailable
   \<and> filter_ips_by_ping tester0 world_noping [''1.1.1.1'', ''8.8.8.8''] =
       ([], [(''1.1.1.1'', ping_unavailable), (''8.8.8.8'', ping_unavailable)])
   \<and> run_tests tester0 world_noping = Inl (RuntimeError ''No IPs passed the ping filter.'')"
  using ping_unavailable_per_candidate[of world_noping tester0 "''1.1.1.1''" "[''1.1.1.1'', ''8.8.8.8'']"]
  by (simp add: world_noping_fields load_noping)

text \<open>
  C7 as stated fails: the run does not fail with the capability error, and that error
  is raised and handled once for each of the two candidates.
\<close>

theorem ping_unavailable_not_reported_once:
  "\<not> PING_AVAILABLE world_noping
   \<and> run_tests tester0 world_noping \<noteq> Inl ping_unavailable
   \<and> snd (filter_ips_by_ping tester0 world_noping [''1.1.1.1'', ''8.8.8.8'']) =
       [(''1.1.1.1'', ping_unavailable), (''8.8.8.8'', ping_unavailable)]"
  by (simp add: world_noping_fields run_tests_def ranked_ips_def load_noping
        filter_unavailable[OF world_noping_fields(1)] ping_unavailable_def)

section \<open>Exporting the results\<close>

lemma flush_spec:
  assumes "fits capacity (on_device f)"
  shows "flush capacity f =
           (fits capacity (on_device f @ pending f),
            \<lparr>pending = drop (length (accepted capacity (on_device f @ pending f)) - length (on_device f))
                         (pending f),
             on_device = accepted capacity (on_device f @ pending f)\<rparr>)"
  using assms
  by (auto simp: flush_def fits_def accepted_def Let_def split: option.splits)

lemma flush_full:
  assumes "capacity = Some c" "length (on_device f) = c"
  shows "on_device (snd (flush capacity f)) = on_device f"
  using assms by (simp add: flush_def Let_def)

text \<open>The state of the file object after the calls of \<open>writerow\<close>.\<close>

lemma writerows_spec:
  assumes "fits (device_capacity w path) (on_device f)"
  shows "case writerows w path rows f of
           (ok, f') \<Rightarrow>
             (ok \<longrightarrow> on_device f' @ pending f'
                       = on_device f @ pending f @ concat (map (csv_format w) rows)
                   \<and> fits (device_capacity w path) (on_device f'))
           \<and> (\<not> ok \<longrightarrow> \<not> fits (device_capacity w path)
                           (on_device f @ pending f @ concat (map (csv_format w) rows))
                   \<and> on_device f' = accepted (device_capacity w path)
                           (on_device f @ pending f @ concat (map (csv_format w) rows)))"
  using assms
proof (induction rows arbitrary: f)
  case Nil
  then show ?case by simp
next
  case (Cons row rows)
  let ?cap = "device_capacity w path"
  let ?g = "f\<lparr>pending := pending f @ csv_format w row\<rparr>"
  have g: "fits ?cap (on_device ?g)" using Cons.prems by simp
  show ?case
  proof (cases "buffer_size w < length (pending ?g)")
    case False
    then have "writerows w path (row # rows) f = writerows w path rows ?g"
      by (simp add: file_write_def Let_def)
    with Cons.IH[OF g] show ?thesis by simp
  next
    case True
    note fl = flush_spec[OF g]
    show ?thesis
    proof (cases "fits ?cap (on_device ?g @ pending ?g)")
      case fit: True
      let ?h = "\<lparr>pending = [], on_device = on_device f @ pending f @ csv_format w row\<rparr>"
      from fit fl have "flush ?cap ?g = (True, ?h)"
        by (auto simp: accepted_def fits_def split: option.splits)
      with True have w: "writerows w path (row # rows) f = writerows w path rows ?h"
        by (simp add: file_write_def Let_def)
      from fit have "fits ?cap (on_device ?h)" by simp
      from Cons.IH[OF this] w show ?thesis by simp
    next
      case nofit: False
      with fl True have w: "writerows w path (row # rows) f =
          (False, \<lparr>pending = drop (length (accepted ?cap (on_device ?g @ pending ?g))
                                  - length (on_device ?g)) (pending ?g),
                   on_device = accepted ?cap (on_device ?g @ pending ?g)\<rparr>)"
        by (simp add: file_write_def Let_def)
      from nofit show ?thesis
        unfolding w by (auto simp: fits_def accepted_def split: option.splits)
    qed
  qed
qed

lemma export_results_spec:
  assumes "open_fault w (output_file self) = None"
  shows "export_results self w results fs =
           (if fits (device_capacity w (output_file self)) (csv_text w results) then Inr ()
            else Inl (export_failed (device_error w (output_file self))),
            fs(output_file self \<mapsto>
                 accepted (device_capacity w (output_file self)) (csv_text w results)))"
proof -
  let ?path = "output_file self"
  let ?cap = "device_capacity w ?path"
  let ?f0 = "\<lparr>pending = [], on_device = []\<rparr>"
  let ?rows = "csv_header # map to_csv_row results"
  have t: "csv_text w results = concat (map (csv_format w) ?rows)"
    by (simp add: csv_text_def)
  have f0: "fits ?cap (on_device ?f0)" by (simp add: fits_def split: option.splits)
  obtain ok f where wr: "writerows w ?path ?rows ?f0 = (ok, f)" by (cases "writerows w ?path ?rows ?f0")
  from writerows_spec[OF f0, of ?rows] wr
  have ok: "ok \<Longrightarrow> on_device f @ pending f = csv_text w results \<and> fits ?cap (on_device f)"
    and nok: "\<not> ok \<Longrightarrow> \<not> fits ?cap (csv_text w results)
                \<and> on_device f = accepted ?cap (csv_text w results)"
    by (simp_all add: t)
  show ?thesis
  proof (cases ok)
    case True
    with ok flush_spec[of ?cap f] wr assms show ?thesis
      by (simp add: export_results_def del: writerows.simps)
  next
    case False
    with nok obtain c where c: "?cap = Some c" "c < length (csv_text w results)"
      "on_device f = take c (csv_text w results)"
      by (auto simp: fits_def accepted_def split: option.splits)
    then have "length (on_device f) = c" by simp
    from flush_full[OF c(1) this] have "on_device (snd (flush ?cap f)) = on_device f" .
    moreover obtain fl f' where fl: "flush ?cap f = (fl, f')" by (cases "flush ?cap f")
    ultimately have "on_device f' = on_device f" by simp
    with False nok wr fl assms show ?thesis
      by (simp add: export_results_def del: writerows.simps)
  qed
qed

text \<open>
  C9, as the code has it. When \<open>run_tests\<close> raises, \<open>main\<close> raises the same error and
  leaves the files as they were. When the output file cannot be opened, \<open>export_results\<close>
  raises and leaves the files as they were. When the device accepts fewer characters
  than the text of the rows has, \<open>export_results\<close> raises (at a \<open>writerow\<close> or at the
  close) and the output file holds the text cut at the capacity of the device, which can
  end inside a row. When the text fits, the file holds the header and every row.
\<close>

theorem export_not_atomic:
  "(run_tests self w = Inl e \<longrightarrow> main self w fs = (Inl e, fs))
   \<and> (open_fault w1 (output_file self1) = Some e1
        \<longrightarrow> export_results self1 w1 results1 fs1 = (Inl (export_failed e1), fs1))
   \<and> (open_fault w2 (output_file self2) = None
        \<and> device_capacity w2 (output_file self2) = Some c \<and> c < length (csv_text w2 results2)
        \<longrightarrow> export_results self2 w2 results2 fs2 =
              (Inl (export_failed (device_error w2 (output_file self2))),
               fs2(output_file self2 \<mapsto> take c (csv_text w2 results2))))
   \<and> (open_fault w3 (output_file self3) = None
        \<and> fits (device_capacity w3 (output_file self3)) (csv_text w3 results3)
        \<longrightarrow> export_results self3 w3 results3 fs3 =
              (Inr (), fs3(output_file self3 \<mapsto> csv_text w3 results3)))"
proof -
  have "main self w fs = (Inl e, fs)" if "run_tests self w = Inl e"
    using that by (simp add: main_def)
  moreover have "export_results self1 w1 results1 fs1 = (Inl (export_failed e1), fs1)"
    if "open_fault w1 (output_file self1) = Some e1"
    using that by (simp add: export_results_def)
  moreover have "export_results self2 w2 results2 fs2 =
      (Inl (export_failed (device_error w2 (output_file self2))),
       fs2(output_file self2 \<mapsto> take c (csv_text w2 results2)))"
    if "open_fault w2 (output_file self2) = None"
      and "device_capacity w2 (output_file self2) = Some c" and "c < length (csv_text w2 results2)"
    using that by (simp add: export_results_spec fits_def accepted_def)
  moreover have "export_results self3 w3 results3 fs3 =
      (Inr (), fs3(output_file self3 \<mapsto> csv_text w3 results3))"
    if "open_fault w3 (output_file self3) = None"
      and "fits (device_capacity w3 (output_file self3)) (csv_text w3 results3)"
    using that by (auto simp: export_results_spec fits_def accepted_def split: option.splits)
  ultimately show ?thesis by blast
qed

lemma upd_capacity_probes:
  "get_ping self (w\<lparr>device_capacity := x\<rparr>) a = get_ping self w a"
  "validate_ip (w\<lparr>device_capacity := x\<rparr>) s = validate_ip w s"
  "fetch_cloudflare_colo_data (w\<lparr>device_capacity := x\<rparr>) = fetch_cloudflare_colo_data w"
  "get_colo_from_ip (w\<lparr>device_capacity := x\<rparr>) a = get_colo_from_ip w a"
  "get_download_speed self (w\<lparr>device_capacity := x\<rparr>) a = get_download_speed self w a"
  "get_upload_speed self (w\<lparr>device_capacity := x\<rparr>) a = get_upload_speed self w a"
  by (simp_all add: get_ping_def validate_ip_def fetch_cloudflare_colo_data_def
        get_colo_from_ip_def get_download_speed_def get_upload_speed_def
        split: outcome.splits ping_response.splits)

lemma upd_capacity_read_ips: "read_ips (w\<lparr>device_capacity := x\<rparr>) path = read_ips w path"
  by (simp add: read_ips_def read_ips_try_def upd_capacity_probes cong: outcome.case_cong)

lemma upd_capacity_test_ip:
  "test_ip self (w\<lparr>device_capacity := x\<rparr>) cd a p = test_ip self w cd a p"
  by (simp add: test_ip_def upd_capacity_probes cong: sum.case_cong option.case_cong if_cong)

lemma upd_capacity_ping_loop:
  "ping_loop self (w\<lparr>device_capacity := x\<rparr>) ips = ping_loop self w ips"
  by (induction ips) (simp_all add: upd_capacity_probes)

lemma upd_capacity_filter:
  "filter_ips_by_ping self (w\<lparr>device_capacity := x\<rparr>) ips = filter_ips_by_ping self w ips"
  by (simp add: filter_ips_by_ping_def upd_capacity_ping_loop)

lemma upd_capacity_test_ips:
  "test_ips self (w\<lparr>device_capacity := x\<rparr>) cd fl = test_ips self w cd fl"
  by (induction fl) (auto simp: upd_capacity_test_ip cong: sum.case_cong option.case_cong)

lemma run_tests_capacity: "run_tests self (w\<lparr>device_capacity := x\<rparr>) = run_tests self w"
  by (simp add: run_tests_def ranked_ips_def load_ip_list_def upd_capacity_read_ips
        upd_capacity_filter upd_capacity_test_ips upd_capacity_probes
        cong: sum.case_cong if_cong)

lemma run_tests_world_full: "run_tests tester0 world_full = Inr [metrics_sin 10, metrics_fra 30]"
  by (simp add: world_full_def run_tests_capacity run_tests_world0)

lemma world_full_fields:
  "open_fault world_full p = None"
  "device_capacity world_full p = Some 92"
  "device_error world_full p = IOError ''[Errno 27] File too large''"
  "csv_format world_full = csv_join"
  by (simp_all add: world_full_def world0_fields)

lemma run_tests_noping:
  "run_tests tester0 world_noping = Inl (RuntimeError ''No IPs passed the ping filter.'')"
  by (simp add: run_tests_def ranked_ips_def load_noping
        filter_unavailable[OF world_noping_fields(1)])

lemma to_csv_row_examples:
  "to_csv_row (metrics_sin 10) = [''8.8.8.8'', ''Asia_Pacific'', ''10'', ''8.39'', ''16.78'']"
  "to_csv_row (metrics_fra 30) = [''1.1.1.1'', ''Europe'', ''30'', ''8.39'', ''16.78'']"
  by (simp_all add: to_csv_row_def metrics_sin_def metrics_fra_def str_int_def format_2f_def
        round_half_even_def Let_def digits_of.simps)

lemma csv_text_examples:
  "csv_text world0 [metrics_sin 10, metrics_fra 30] =
     csv_join csv_header @ csv_join [''8.8.8.8'', ''Asia_Pacific'', ''10'', ''8.39'', ''16.78'']
       @ csv_join [''1.1.1.1'', ''Europe'', ''30'', ''8.39'', ''16.78'']"
  "csv_text world_full rs = csv_text world0 rs"
  by (simp_all add: csv_text_def world0_fields world_full_fields to_csv_row_examples)

lemma length_csv_examples:
  "length (csv_join csv_header) = 51"
  "length (csv_join [''8.8.8.8'', ''Asia_Pacific'', ''10'', ''8.39'', ''16.78'']) = 36"
  "length (csv_join [''1.1.1.1'', ''Europe'', ''30'', ''8.39'', ''16.78'']) = 30"
  by (simp_all add: csv_join_def csv_header_def)

lemma torn_row: "take 5 (csv_join [''1.1.1.1'', ''Europe'', ''30'', ''8.39'', ''16.78'']) = ''1.1.1''"
  by (simp add: csv_join_def)

lemma take_csv_example:
  "take 92 (csv_text world_full [metrics_sin 10, metrics_fra 30]) =
     csv_join csv_header @ csv_join [''8.8.8.8'', ''Asia_Pacific'', ''10'', ''8.39'', ''16.78'']
       @ ''1.1.1''"
  by (simp add: csv_text_examples length_csv_examples torn_row)

text \<open>C9 on a run that fails at the ranking, a file that cannot be opened, a device
  that accepts 92 of the 117 characters, and a device without a limit.\<close>

theorem export_not_atomic_witness:
  "run_tests tester0 world_noping = Inl (RuntimeError ''No IPs passed the ping filter.'')
   \<and> main tester0 world_noping Map.empty =
       (Inl (RuntimeError ''No IPs passed the ping filter.''), Map.empty)
   \<and> open_fault world_readonly (output_file tester0) = Some (IOError ''[Errno 13] Permission denied'')
   \<and> export_results tester0 world_readonly [metrics_sin 10, metrics_fra 30] Map.empty =
       (Inl (export_failed (IOError ''[Errno 13] Permission denied'')), Map.empty)
   \<and> open_fault world_full (output_file tester0) = None
   \<and> device_capacity world_full (output_file tester0) = Some 92
   \<and> 92 < length (csv_text world_full [metrics_sin 10, metrics_fra 30])
   \<and> export_results tester0 world_full [metrics_sin 10, metrics_fra 30] Map.empty =
       (Inl (export_failed (device_error world_full (output_file tester0))),
        [output_file tester0 \<mapsto> take 92 (csv_text world_full [metrics_sin 10, metrics_fra 30])])
   \<and> open_fault world0 (output_file tester0) = None
   \<and> fits (device_capacity world0 (output_file tester0))
        (csv_text world0 [metrics_sin 10, metrics_fra 30])
   \<and> export_results tester0 world0 [metrics_sin 10, metrics_fra 30] Map.empty =
       (Inr (), [output_file tester0 \<mapsto> csv_text world0 [metrics_sin 10, metrics_fra 30]])"
proof -
  have o: "open_fault world_readonly (output_file tester0) = Some (IOError ''[Errno 13] Permission denied'')"
    by (simp add: world_readonly_def)
  have l: "92 < length (csv_text world_full [metrics_sin 10, metrics_fra 30])"
    by (simp add: csv_text_examples length_csv_examples)
  have f: "fits (device_capacity world0 (output_file tester0))
             (csv_text world0 [metrics_sin 10, metrics_fra 30])"
    by (simp add: fits_def world0_fields)
  from export_not_atomic[where self = tester0 and w = world_noping
      and e = "RuntimeError ''No IPs passed the ping filter.''" and fs = Map.empty
      and ?w1.0 = world_readonly and ?self1.0 = tester0 and ?e1.0 = "IOError ''[Errno 13] Permission denied''"
      and ?results1.0 = "[metrics_sin 10, metrics_fra 30]" and ?fs1.0 = Map.empty
      and ?w2.0 = world_full and ?self2.0 = tester0 and c = 92
      and ?results2.0 = "[metrics_sin 10, metrics_fra 30]" and ?fs2.0 = Map.empty
      and ?w3.0 = world0 and ?self3.0 = tester0
      and ?results3.0 = "[metrics_sin 10, metrics_fra 30]" and ?fs3.0 = Map.empty]
    run_tests_noping o l f world_full_fields(1,2) world0_fields(14)
  show ?thesis by simp
qed

text \<open>
  C9 as stated fails: the run has two result rows, the size of a file is limited to 92
  characters (the text of the rows has 117),
  \<open>main\<close> raises, and the output file holds the header, the first result row, and the
  first five characters of the second.
\<close>

theorem export_leaves_partial_file:
  "run_tests tester0 world_full = Inr [metrics_sin 10, metrics_fra 30]
   \<and> fst (main tester0 world_full Map.empty) =
       Inl (IOError
             ''Critical error: Failed to export results: [Errno 27] File too large'')
   \<and> snd (main tester0 world_full Map.empty) ''ip_performance.csv'' =
       Some (csv_join csv_header
             @ csv_join [''8.8.8.8'', ''Asia_Pacific'', ''10'', ''8.39'', ''16.78'']
             @ ''1.1.1'')"
proof -
  have l: "\<not> fits (Some 92) (csv_text world_full [metrics_sin 10, metrics_fra 30])"
    by (simp add: fits_def csv_text_examples length_csv_examples)
  show ?thesis
    by (simp add: main_def run_tests_world_full export_results_spec world_full_fields l
        accepted_def take_csv_example tester0_fields export_failed_def)
qed

section \<open>The run and the shuffle\<close>

lemma upd_shuffle_probes:
  "get_ping self (w\<lparr>random_shuffle := x\<rparr>) a = get_ping self w a"
  "validate_ip (w\<lparr>random_shuffle := x\<rparr>) s = validate_ip w s"
  "fetch_cloudflare_colo_data (w\<lparr>random_shuffle := x\<rparr>) = fetch_cloudflare_colo_data w"
  "get_colo_from_ip (w\<lparr>random_shuffle := x\<rparr>) a = get_colo_from_ip w a"
  "get_download_speed self (w\<lparr>random_shuffle := x\<rparr>) a = get_download_speed self w a"
  "get_upload_speed self (w\<lparr>random_shuffle := x\<rparr>) a = get_upload_speed self w a"
  by (simp_all add: get_ping_def validate_ip_def fetch_cloudflare_colo_data_def
        get_colo_from_ip_def get_download_speed_def get_upload_speed_def
        split: outcome.splits ping_response.splits)

lemma upd_shuffle_read_ips: "read_ips (w\<lparr>random_shuffle := x\<rparr>) path = read_ips w path"
  by (simp add: read_ips_def read_ips_try_def upd_shuffle_probes cong: outcome.case_cong)

lemma upd_shuffle_test_ip: "test_ip self (w\<lparr>random_shuffle := x\<rparr>) cd a p = test_ip self w cd a p"
  by (simp add: test_ip_def upd_shuffle_probes cong: sum.case_cong option.case_cong if_cong)

lemma upd_shuffle_ping_loop: "ping_loop self (w\<lparr>random_shuffle := x\<rparr>) ips = ping_loop self w ips"
  by (induction ips) (simp_all add: upd_shuffle_probes)

lemma upd_shuffle_filter:
  "filter_ips_by_ping self (w\<lparr>random_shuffle := x\<rparr>) ips = filter_ips_by_ping self w ips"
  by (simp add: filter_ips_by_ping_def upd_shuffle_ping_loop)

lemma upd_shuffle_test_ips: "test_ips self (w\<lparr>random_shuffle := x\<rparr>) cd fl = test_ips self w cd fl"
  by (induction fl) (auto simp: upd_shuffle_test_ip cong: sum.case_cong option.case_cong)

lemma mset_map_filter:
  "mset xs = mset ys \<Longrightarrow> mset (List.map_filter f xs) = mset (List.map_filter f ys)"
  by (simp add: List.map_filter_def)

lemma inj_on_snd_entries:
  assumes "\<forall>a\<in>set ips. \<forall>b\<in>set ips.
             ping_passes self w a \<and> get_ping self w a = get_ping self w b \<longrightarrow> a = b"
  shows "inj_on snd (set (List.map_filter (ping_entry self w) ips))"
proof (rule inj_onI)
  fix x y
  assume x: "x \<in> set (List.map_filter (ping_entry self w) ips)"
    and y: "y \<in> set (List.map_filter (ping_entry self w) ips)" and eq: "snd x = snd y"
  from x obtain a where a: "a \<in> set ips" "x = (a, snd x)" "get_ping self w a = Inr (snd x)"
    "0 < snd x" "snd x \<le> max_ping self"
    by (auto simp: set_ping_entries ping_entry_Some)
  from y obtain b where b: "b \<in> set ips" "y = (b, snd y)" "get_ping self w b = Inr (snd y)"
    by (auto simp: set_ping_entries ping_entry_Some)
  from a have "ping_passes self w a" by (simp add: ping_passes_def)
  with assms a b eq have "a = b" by auto
  with a(2) b(2) eq show "x = y" by simp
qed

lemma ranked_perm:
  assumes "mset xs = mset ys"
    and "\<forall>a\<in>set xs. \<forall>b\<in>set xs.
           ping_passes self w a \<and> get_ping self w a = get_ping self w b \<longrightarrow> a = b"
  shows "fst (filter_ips_by_ping self w xs) = fst (filter_ips_by_ping self w ys)"
proof -
  have "sort_key snd (List.map_filter (ping_entry self w) xs) =
        sort_key snd (List.map_filter (ping_entry self w) ys)"
    using mset_map_filter[OF assms(1)] inj_on_snd_entries[OF assms(2)]
    by (rule sort_key_eq_sort_key)
  then show ?thesis by (simp add: fst_filter_ips_by_ping)
qed

text \<open>
  C2, as the code has it. The output of \<open>run_tests\<close> is the same for every outcome of
  \<open>random.shuffle\<close> (every permutation of the candidates read) when no two different
  candidates that pass the latency filter have the same latency.
\<close>

theorem run_tests_shuffle_independent:
  assumes "read_ips w (ip_file self) = Inr ips"
    and "mset (random_shuffle w ips) = mset ips" and "mset (sh ips) = mset ips"
    and "\<forall>a\<in>set ips. \<forall>b\<in>set ips.
           ping_passes self w a \<and> get_ping self w a = get_ping self w b \<longrightarrow> a = b"
  shows "run_tests self (w\<lparr>random_shuffle := sh\<rparr>) = run_tests self w"
proof -
  have s: "set (sh ips) = set ips" using assms(3) by (rule mset_eq_setD)
  have "fst (filter_ips_by_ping self w (sh ips)) =
        fst (filter_ips_by_ping self w (random_shuffle w ips))"
    using assms(2,3,4) by (intro ranked_perm) (simp_all add: s)
  then show ?thesis
    using assms(1)
    by (simp add: run_tests_def ranked_ips_def load_ip_list_def upd_shuffle_read_ips
        upd_shuffle_filter upd_shuffle_test_ips upd_shuffle_probes
        cong: sum.case_cong if_cong)
qed

lemma distinct_pings_world0:
  "\<forall>a\<in>set [''1.1.1.1'', ''8.8.8.8'']. \<forall>b\<in>set [''1.1.1.1'', ''8.8.8.8''].
     ping_passes tester0 world0 a \<and> get_ping tester0 world0 a = get_ping tester0 world0 b
       \<longrightarrow> a = b"
  by (simp add: get_ping_world0)

text \<open>C2 on the example run, whose latencies are 30 ms and 10 ms, with the reversal.\<close>

theorem run_tests_shuffle_independent_witness:
  "read_ips world0 (ip_file tester0) = Inr [''1.1.1.1'', ''8.8.8.8'']
   \<and> mset (random_shuffle world0 [''1.1.1.1'', ''8.8.8.8'']) = mset [''1.1.1.1'', ''8.8.8.8'']
   \<and> mset (rev [''1.1.1.1'', ''8.8.8.8'']) = mset [''1.1.1.1'', ''8.8.8.8'']
   \<and> get_ping tester0 world0 ''1.1.1.1'' = Inr 30
   \<and> get_ping tester0 world0 ''8.8.8.8'' = Inr 10
   \<and> run_tests tester0 (world0\<lparr>random_shuffle := rev\<rparr>) = run_tests tester0 world0
   \<and> run_tests tester0 world0 = Inr [metrics_sin 10, metrics_fra 30]"
proof -
  have r: "read_ips world0 (ip_file tester0) = Inr [''1.1.1.1'', ''8.8.8.8'']"
    by (simp add: tester0_fields read_ips_world0)
  have p: "mset (random_shuffle world0 [''1.1.1.1'', ''8.8.8.8'']) = mset [''1.1.1.1'', ''8.8.8.8'']"
    by (simp add: world0_fields)
  have q: "mset (rev [''1.1.1.1'', ''8.8.8.8'']) = mset [''1.1.1.1'', ''8.8.8.8'']"
    by simp
  from run_tests_shuffle_independent[where sh = rev, OF r p q distinct_pings_world0]
    r p q run_tests_world0
  show ?thesis by (simp add: get_ping_world0)
qed

lemma probes_tie:
  "get_colo_from_ip world_tie a = get_colo_from_ip world0 a"
  "get_download_speed tester0 world_tie a = get_download_speed tester0 world0 a"
  "get_upload_speed tester0 world_tie a = get_upload_speed tester0 world0 a"
  "get_colo_from_ip world_tie_rev a = get_colo_from_ip world0 a"
  "get_download_speed tester0 world_tie_rev a = get_download_speed tester0 world0 a"
  "get_upload_speed tester0 world_tie_rev a = get_upload_speed tester0 world0 a"
  by (simp_all add: get_colo_from_ip_def get_download_speed_def get_upload_speed_def
        world_tie_fields world_tie_rev_fields)

lemma test_ip_tie:
  "test_ip tester0 world_tie cd a p = test_ip tester0 world0 cd a p"
  "test_ip tester0 world_tie_rev cd a p = test_ip tester0 world0 cd a p"
  by (simp_all add: test_ip_def probes_tie cong: sum.case_cong option.case_cong if_cong)

lemma run_tests_tie:
  "run_tests tester0 world_tie = Inr [metrics_fra 10, metrics_sin 10]"
  "run_tests tester0 world_tie_rev = Inr [metrics_sin 10, metrics_fra 10]"
  by (simp_all add: run_tests_def ranked_tie fetch_cloudflare_colo_data_def world_tie_fields
        world_tie_rev_fields table0_nonempty test_ip_tie test_ip_world0)

lemma metrics_differ: "metrics_fra p \<noteq> metrics_sin q"
  by (simp add: metrics_fra_def metrics_sin_def)

text \<open>
  C2 as stated fails: with the same candidate file and the same probe responses, where
  both candidates answer in 10 ms, the run whose shuffle reverses the list returns the
  two records in the other order.
\<close>

theorem run_tests_depends_on_shuffle:
  "world_tie_rev = world_tie\<lparr>random_shuffle := rev\<rparr>
   \<and> run_tests tester0 world_tie = Inr [metrics_fra 10, metrics_sin 10]
   \<and> run_tests tester0 world_tie_rev = Inr [metrics_sin 10, metrics_fra 10]
   \<and> run_tests tester0 world_tie_rev \<noteq> run_tests tester0 world_tie"
  by (simp add: world_tie_rev_def[symmetric] run_tests_tie metrics_differ)

end
